theory Spec2Isabelle
  imports Main "HOL-Library.Word"
begin

section \<open>The finite-state controller of fsm.hpp / fsm.cpp\<close>

text \<open>
  The class \<open>FSM\<close> is embedded as a record and each member function as a HOL function
  that takes the object and returns the updated object.  The two collaborators of the
  engine are made explicit parameters of the functions that consult them:
  \<^item> \<open>millis()\<close> (a \<open>uint32_t\<close>): the value it returns to a call of
    \<open>transitionToState\<close> is the parameter \<open>now\<close>;
  \<^item> \<open>cin >> cmd\<close>: the \<open>int\<close> held by \<open>cmd\<close> when the \<open>switch\<close> of
    \<open>performProcess\<close> runs is the parameter \<open>cmd\<close>.

  When the extraction fails, \<open>cmd\<close> holds whatever C++ leaves in it; the model is
  parametric in that value.

  \<open>uint32_t\<close> is \<open>32 word\<close>.  A C++ \<open>int\<close> is taken to be 32 bits wide: a \<open>32 word\<close>
  read in two's complement with \<open>sint\<close>; its comparisons are comparisons of the
  \<open>sint\<close> values, and \<open>++\<close> is the addition of 1 on the word, which takes
  \<open>INT_MAX\<close> to \<open>INT_MIN\<close> as the compiled increment does.
\<close>

subsection \<open>Data (fsm.hpp)\<close>

datatype SystemState = INIT | IDLE | MOVEMENT | SHOOTING | CALCULATION | ERROR | STOPPED

type_synonym uint32 = "32 word"
type_synonym cint = "32 word"

record FSM =
  currentState :: SystemState
  lastHeartbeat :: uint32
  delay :: uint32
  errorCount :: cint
  stateHistory :: "(SystemState \<times> uint32) list"
  moveCount :: cint

subsection \<open>Construction, transition primitive, setters and getters (fsm.cpp 15--57)\<close>

text \<open>\<open>FSM::FSM()\<close> and \<open>FSM::FSM(uint32_t delay_ms)\<close>.\<close>

definition FSM_default :: FSM where
  "FSM_default =
     \<lparr>currentState = INIT, lastHeartbeat = 0, delay = 0, errorCount = 0,
      stateHistory = [(INIT, 0)], moveCount = 0\<rparr>"

definition FSM_delay :: "uint32 \<Rightarrow> FSM" where
  "FSM_delay delay_ms =
     \<lparr>currentState = INIT, lastHeartbeat = 0, delay = delay_ms, errorCount = 0,
      stateHistory = [(INIT, 0)], moveCount = 0\<rparr>"

definition getCurrentState :: "FSM \<Rightarrow> SystemState" where
  "getCurrentState f = currentState f"

definition transitionToState :: "FSM \<Rightarrow> SystemState \<Rightarrow> uint32 \<Rightarrow> FSM" where
  "transitionToState f newState now =
     f\<lparr>currentState := newState,
       lastHeartbeat := now,
       stateHistory := stateHistory f @ [(newState, now)]\<rparr>"


definition getDelay :: "FSM \<Rightarrow> uint32" where
  "getDelay f = delay f"

definition setErrorCount :: "FSM \<Rightarrow> cint \<Rightarrow> FSM" where
  "setErrorCount f count = f\<lparr>errorCount := count\<rparr>"

definition getErrorCount :: "FSM \<Rightarrow> cint" where
  "getErrorCount f = errorCount f"

definition setMoveCount :: "FSM \<Rightarrow> cint \<Rightarrow> FSM" where
  "setMoveCount f count = f\<lparr>moveCount := count\<rparr>"

definition getMoveCount :: "FSM \<Rightarrow> cint" where
  "getMoveCount f = moveCount f"

definition addStateToHistory :: "FSM \<Rightarrow> SystemState \<Rightarrow> uint32 \<Rightarrow> FSM" where
  "addStateToHistory f state time = f\<lparr>stateHistory := stateHistory f @ [(state, time)]\<rparr>"

definition getStateHistory :: "FSM \<Rightarrow> (SystemState \<times> uint32) list" where
  "getStateHistory f = stateHistory f"

definition getLastHeartbeat :: "FSM \<Rightarrow> uint32" where
  "getLastHeartbeat f = lastHeartbeat f"


text \<open>
  A sequence of \<open>transitionToState\<close> calls on one object, each with its target state
  and the clock value it reads.
\<close>

fun transitions :: "FSM \<Rightarrow> (SystemState \<times> uint32) list \<Rightarrow> FSM" where
  "transitions f [] = f"
| "transitions f ((newState, now) # calls) = transitions (transitionToState f newState now) calls"

subsection \<open>Console output (fsm.cpp 82--95)\<close>

text \<open>
  What the engine writes to \<open>cout\<close> is recorded as a list of output items, in the order
  written.  A literal line is \<open>Text\<close>; the status line carries the three numbers that
  \<open>printStatus\<close> prints and the history line the pairs that \<open>printStateHistory\<close> prints.
  The layout of the digits is not modelled.
\<close>

datatype console_item =
  Text string
| Status int cint cint
| History "(int \<times> uint32) list"

text \<open>\<open>static_cast<int>\<close> of the enumeration: the position of the enumerator.\<close>

fun state_code :: "SystemState \<Rightarrow> int" where
  "state_code INIT = 0"
| "state_code IDLE = 1"
| "state_code MOVEMENT = 2"
| "state_code SHOOTING = 3"
| "state_code CALCULATION = 4"
| "state_code ERROR = 5"
| "state_code STOPPED = 6"

definition printStatus :: "FSM \<Rightarrow> console_item list" where
  "printStatus f = [Status (state_code (currentState f)) (moveCount f) (errorCount f)]"

definition printStateHistory :: "FSM \<Rightarrow> console_item list" where
  "printStateHistory f = [History (map (\<lambda>entry. (state_code (fst entry), snd entry)) (stateHistory f))]"

subsection \<open>Limits of \<open>int\<close>\<close>

definition INT_MAX :: cint where
  "INT_MAX = 2147483647"

definition INT_MIN :: cint where
  "INT_MIN = - 2147483648"

subsection \<open>State handlers (fsm.cpp 98--150)\<close>

definition performInit :: "FSM \<Rightarrow> uint32 \<Rightarrow> console_item list \<times> FSM" where
  "performInit f now = ([Text ''Initializing...''], transitionToState f IDLE now)"

definition performProcess :: "FSM \<Rightarrow> cint \<Rightarrow> uint32 \<Rightarrow> console_item list \<times> FSM" where
  "performProcess f cmd now =
     (let out = printStatus f @ [Text ''Commands: 1=Status 2=Move 3=Shoot 4=Calc 5=Stop > ''] in
      if cmd = 1 then (out @ printStatus f @ printStateHistory f, f)
      else if cmd = 2 then (out, transitionToState f MOVEMENT now)
      else if cmd = 3 then (out, transitionToState f SHOOTING now)
      else if cmd = 4 then (out, transitionToState f CALCULATION now)
      else if cmd = 5 then (out, transitionToState f STOPPED now)
      else (out @ [Text ''Invalid''], transitionToState f ERROR now))"

definition performMovement :: "FSM \<Rightarrow> uint32 \<Rightarrow> console_item list \<times> FSM" where
  "performMovement f now =
     (let f1 = f\<lparr>moveCount := moveCount f + 1\<rparr> in
      ([Text ''Moving...''],
       transitionToState f1 (if 3 \<le> sint (moveCount f1) then SHOOTING else IDLE) now))"

definition performShooting :: "FSM \<Rightarrow> uint32 \<Rightarrow> console_item list \<times> FSM" where
  "performShooting f now =
     ([Text ''Shooting...''], transitionToState (f\<lparr>moveCount := 0\<rparr>) IDLE now)"

definition performCalculation :: "FSM \<Rightarrow> uint32 \<Rightarrow> console_item list \<times> FSM" where
  "performCalculation f now =
     ([Text ''Calculating...''],
      if moveCount f = 0 then transitionToState f ERROR now
      else transitionToState f IDLE now)"

definition performErrorHandling :: "FSM \<Rightarrow> uint32 \<Rightarrow> console_item list \<times> FSM" where
  "performErrorHandling f now =
     (let f1 = f\<lparr>errorCount := errorCount f + 1\<rparr> in
      ([Text ''Error!''],
       transitionToState f1 (if 3 < sint (errorCount f1) then STOPPED else IDLE) now))"

definition shutdown :: "FSM \<Rightarrow> console_item list \<times> FSM" where
  "shutdown f = (Text ''Shutting down...'' # printStateHistory f, f)"

subsection \<open>Dispatch and run loop (fsm.cpp 60--79)\<close>

definition update :: "FSM \<Rightarrow> cint \<Rightarrow> uint32 \<Rightarrow> console_item list \<times> FSM" where
  "update f cmd now =
     (case currentState f of
        INIT \<Rightarrow> performInit f now
      | IDLE \<Rightarrow> performProcess f cmd now
      | MOVEMENT \<Rightarrow> performMovement f now
      | SHOOTING \<Rightarrow> performShooting f now
      | CALCULATION \<Rightarrow> performCalculation f now
      | ERROR \<Rightarrow> performErrorHandling f now
      | STOPPED \<Rightarrow> shutdown f)"

text \<open>
  The loop \<open>while (currentState != STOPPED) update();\<close>.  Each iteration reads at most
  one command and at most one clock value; the list \<open>steps\<close> gives, for each iteration
  in turn, the command and the clock value it would read.  The loop may run forever
  (the operator may ask for the status for ever): \<open>None\<close> says that the loop is still
  running when the given steps are used up.
\<close>

fun update_loop :: "FSM \<Rightarrow> (cint \<times> uint32) list \<Rightarrow> (console_item list \<times> FSM) option" where
  "update_loop f steps =
     (if currentState f = STOPPED then Some ([], f)
      else case steps of
        [] \<Rightarrow> None
      | (cmd, now) # rest \<Rightarrow>
          (case update f cmd now of
             (out, f') \<Rightarrow>
               (case update_loop f' rest of
                  None \<Rightarrow> None
                | Some (out', f'') \<Rightarrow> Some (out @ out', f''))))"

definition start :: "FSM \<Rightarrow> uint32 \<Rightarrow> (cint \<times> uint32) list \<Rightarrow> (console_item list \<times> FSM) option" where
  "start f now steps =
     (case performInit f now of
        (out0, f0) \<Rightarrow>
          (case update_loop f0 steps of
             None \<Rightarrow> None
           | Some (out1, f1) \<Rightarrow>
               (case shutdown f1 of
                  (out2, f2) \<Rightarrow> Some (out0 @ out1 @ out2, f2))))"

text \<open>A sequence of \<open>update\<close> calls made by a caller, one step of input for each.\<close>

fun updates :: "FSM \<Rightarrow> (cint \<times> uint32) list \<Rightarrow> console_item list \<times> FSM" where
  "updates f [] = ([], f)"
| "updates f ((cmd, now) # rest) =
     (case update f cmd now of
        (out, f') \<Rightarrow>
          (case updates f' rest of
             (out', f'') \<Rightarrow> (out @ out', f'')))"

declare update_loop.simps [simp del]

subsection \<open>The public interface as a whole (fsm.hpp 34--239)\<close>



section \<open>Properties\<close>

subsection \<open>Signed arithmetic on the counters\<close>

lemma sint_INT_MAX: "sint (x :: cint) = 2147483647 \<Longrightarrow> x = INT_MAX"
proof -
  assume a: "sint x = 2147483647"
  have "x = word_of_int (sint x)" by simp
  also have "\<dots> = INT_MAX" unfolding a INT_MAX_def by simp
  finally show ?thesis .
qed

lemma sint_incr:
  assumes "x \<noteq> INT_MAX"
  shows "sint (x + 1 :: cint) = sint x + 1"
proof -
  have ne: "sint x \<noteq> 2147483647" using assms sint_INT_MAX by blast
  have ub: "sint x < 2 ^ 31" using sint_lt [of x] by simp
  have lb: "- (2 ^ 31) \<le> sint x" using sint_ge [of x] by simp
  have "sint (x + 1) = signed_take_bit 31 (sint x + 1)"
    by (simp add: sint_word_ariths)
  also have "\<dots> = sint x + 1"
    using ne ub lb by (simp add: signed_take_bit_int_eq_self_iff)
  finally show ?thesis .
qed

lemma sint_add3:
  assumes "sint (x :: cint) \<le> 2147483644"
  shows "sint (x + 3) = sint x + 3"
proof -
  have lb: "- (2 ^ 31) \<le> sint x" using sint_ge [of x] by simp
  have "sint (x + 3) = signed_take_bit 31 (sint x + sint (3 :: cint))"
    by (simp add: sint_word_ariths)
  also have "\<dots> = signed_take_bit 31 (sint x + 3)" by simp
  also have "\<dots> = sint x + 3"
    using assms lb by (simp add: signed_take_bit_int_eq_self_iff)
  finally show ?thesis .
qed

lemma INT_MAX_incr: "INT_MAX + 1 = INT_MIN"
  by (simp add: INT_MAX_def INT_MIN_def)

lemma sint_INT_MIN: "sint INT_MIN = - 2147483648"
  by (simp add: INT_MIN_def)

lemma sint_INT_MAX_val: "sint INT_MAX = 2147483647"
  by (simp add: INT_MAX_def)

lemma sint_le_INT_MAX: "sint (x :: cint) \<le> 2147483647"
  using sint_lt [of x] by simp

subsection \<open>What the two counting handlers store and where they go\<close>

lemma moveCount_performMovement:
  "moveCount (snd (performMovement f now)) = moveCount f + 1"
  by (simp add: performMovement_def transitionToState_def Let_def)

lemma currentState_performMovement:
  "currentState (snd (performMovement f now))
     = (if 3 \<le> sint (moveCount f + 1) then SHOOTING else IDLE)"
  by (simp add: performMovement_def transitionToState_def Let_def)

lemma errorCount_performErrorHandling:
  "errorCount (snd (performErrorHandling f now)) = errorCount f + 1"
  by (simp add: performErrorHandling_def transitionToState_def Let_def)

lemma currentState_performErrorHandling:
  "currentState (snd (performErrorHandling f now))
     = (if 3 < sint (errorCount f + 1) then STOPPED else IDLE)"
  by (simp add: performErrorHandling_def transitionToState_def Let_def)

subsection \<open>The run loop, one iteration at a time\<close>

lemma update_loop_Nil:
  "update_loop f [] = (if currentState f = STOPPED then Some ([], f) else None)"
  by (simp add: update_loop.simps)

lemma update_loop_Cons:
  "update_loop f ((cmd, now) # rest) =
     (if currentState f = STOPPED then Some ([], f)
      else case update f cmd now of
             (out, f') \<Rightarrow>
               (case update_loop f' rest of
                  None \<Rightarrow> None
                | Some (out', f'') \<Rightarrow> Some (out @ out', f'')))"
  by (subst update_loop.simps) simp

subsection \<open>History and current state under transitions\<close>

lemma transitions_history:
  "stateHistory (transitions f calls) = stateHistory f @ calls"
  by (induction f calls rule: transitions.induct) (simp_all add: transitionToState_def)

lemma transitions_currentState:
  "currentState (transitions f calls) =
     (if calls = [] then currentState f else fst (last calls))"
  by (induction f calls rule: transitions.induct) (simp_all add: transitionToState_def)

text \<open>
  Claim C1.  After construction (by either constructor) and any sequence of
  \<open>transitionToState\<close> calls, the history has one entry more than the number of calls,
  and the state of its last entry is the current state.
\<close>

theorem C1_history_length_and_last:
  "length (stateHistory (transitions FSM_default calls)) = 1 + length calls
   \<and> fst (last (stateHistory (transitions FSM_default calls)))
       = currentState (transitions FSM_default calls)
   \<and> length (stateHistory (transitions (FSM_delay d) calls)) = 1 + length calls
   \<and> fst (last (stateHistory (transitions (FSM_delay d) calls)))
       = currentState (transitions (FSM_delay d) calls)"
  by (simp add: transitions_history transitions_currentState FSM_default_def FSM_delay_def)

subsection \<open>The Idle handler\<close>

text \<open>
  Claim C2.  In \<open>IDLE\<close>, \<open>update\<close> runs \<open>performProcess\<close>, which reads one command.  On
  command 1 it writes the status line, the prompt, the status line again (state code 1,
  the move count, the error count) and the history line (every entry of the history, in
  order), and leaves the object as it is: still \<open>IDLE\<close>, history unchanged.  On 2, 3, 4
  and 5 it makes the transition to \<open>MOVEMENT\<close>, \<open>SHOOTING\<close>, \<open>CALCULATION\<close> and
  \<open>STOPPED\<close>; on every other integer it makes the transition to \<open>ERROR\<close>.
\<close>

theorem C2_performProcess_decision:
  assumes "currentState f = IDLE"
  shows "update f cmd now = performProcess f cmd now
    \<and> performProcess f 1 now =
        ([Status 1 (moveCount f) (errorCount f),
          Text ''Commands: 1=Status 2=Move 3=Shoot 4=Calc 5=Stop > '',
          Status 1 (moveCount f) (errorCount f),
          History (map (\<lambda>entry. (state_code (fst entry), snd entry)) (stateHistory f))], f)
    \<and> currentState (snd (performProcess f 1 now)) = IDLE
    \<and> stateHistory (snd (performProcess f 1 now)) = stateHistory f
    \<and> snd (performProcess f 2 now) = transitionToState f MOVEMENT now
    \<and> snd (performProcess f 3 now) = transitionToState f SHOOTING now
    \<and> snd (performProcess f 4 now) = transitionToState f CALCULATION now
    \<and> snd (performProcess f 5 now) = transitionToState f STOPPED now
    \<and> (cmd \<noteq> 1 \<and> cmd \<noteq> 2 \<and> cmd \<noteq> 3 \<and> cmd \<noteq> 4 \<and> cmd \<noteq> 5
         \<longrightarrow> snd (performProcess f cmd now) = transitionToState f ERROR now)"
  using assms by (simp add: update_def performProcess_def printStatus_def printStateHistory_def)

text \<open>
  Claim C2 at a concrete input: the engine after \<open>performInit\<close> at time 10 is in
  \<open>IDLE\<close>; command 9 leads to \<open>ERROR\<close>, command 2 to \<open>MOVEMENT\<close>, and command 1 prints
  the status \<open>1, 0, 0\<close> twice and the two history entries, and returns the same object.
\<close>

theorem C2_performProcess_decision_witness:
  "currentState (snd (performInit FSM_default 10)) = IDLE
   \<and> update (snd (performInit FSM_default 10)) 9 20
       = performProcess (snd (performInit FSM_default 10)) 9 20
   \<and> currentState (snd (performProcess (snd (performInit FSM_default 10)) 9 20)) = ERROR
   \<and> currentState (snd (performProcess (snd (performInit FSM_default 10)) 2 20)) = MOVEMENT
   \<and> performProcess (snd (performInit FSM_default 10)) 1 20
       = ([Status 1 0 0,
           Text ''Commands: 1=Status 2=Move 3=Shoot 4=Calc 5=Stop > '',
           Status 1 0 0,
           History [(0, 0), (1, 10)]],
          \<lparr>currentState = IDLE, lastHeartbeat = 10, delay = 0, errorCount = 0,
           stateHistory = [(INIT, 0), (IDLE, 10)], moveCount = 0\<rparr>)"
proof -
  have idle: "currentState (snd (performInit FSM_default 10)) = IDLE"
    by (simp add: performInit_def transitionToState_def)
  have ne: "(9::cint) \<noteq> 1 \<and> (9::cint) \<noteq> 2 \<and> (9::cint) \<noteq> 3 \<and> (9::cint) \<noteq> 4 \<and> (9::cint) \<noteq> 5"
    by simp
  have val: "snd (performInit FSM_default 10) =
          \<lparr>currentState = IDLE, lastHeartbeat = 10, delay = 0, errorCount = 0,
           stateHistory = [(INIT, 0), (IDLE, 10)], moveCount = 0\<rparr>"
    by (simp add: performInit_def transitionToState_def FSM_default_def)
  show ?thesis
    using C2_performProcess_decision [OF idle, of 9 20] idle ne
    by (simp add: transitionToState_def val)
qed

subsection \<open>The Movement handler\<close>

text \<open>
  Claim C3 says that every call of \<open>performMovement\<close> increments the counter by exactly
  1 and that three Movement actions in a row leave the engine in \<open>SHOOTING\<close>.  Neither
  holds for every engine that the public setter \<open>setMoveCount\<close> can produce: from a
  count of -5, three calls end in \<open>IDLE\<close> (the count is then -2); and from \<open>INT_MAX\<close> the
  stored count after the call is \<open>INT_MIN\<close>, not \<open>INT_MAX + 1\<close>, and the engine goes to
  \<open>IDLE\<close>.
\<close>

theorem C3_performMovement_counterexample:
  "currentState (snd (performMovement (snd (performMovement (snd (performMovement
       (setMoveCount FSM_default (- 5)) 10)) 20)) 30)) = IDLE
   \<and> sint (moveCount (setMoveCount FSM_default INT_MAX)) = 2147483647
   \<and> sint (moveCount (snd (performMovement (setMoveCount FSM_default INT_MAX) 10)))
       = - 2147483648
   \<and> currentState (snd (performMovement (setMoveCount FSM_default INT_MAX) 10)) = IDLE"
  by (simp add: performMovement_def transitionToState_def setMoveCount_def
      FSM_default_def INT_MAX_def Let_def)

text \<open>
  Claim C3 as amended.  Every call of \<open>performMovement\<close> adds 1 to \<open>moveCount\<close> in
  32-bit two's complement arithmetic: by exactly 1 when the count is below \<open>INT_MAX\<close>,
  and from \<open>INT_MAX\<close> to \<open>INT_MIN\<close>.  It then makes the transition to \<open>SHOOTING\<close> if the
  stored, incremented count is at least 3, and to \<open>IDLE\<close> otherwise.  Three calls in a
  row leave the engine in \<open>SHOOTING\<close> exactly when the count three higher is at least
  3; this is so whenever the count starts between 0 and \<open>INT_MAX - 3\<close>.
\<close>

theorem C3_performMovement_amended:
  "fst (performMovement f now) = [Text ''Moving...'']
   \<and> moveCount (snd (performMovement f now)) = moveCount f + 1
   \<and> (moveCount f \<noteq> INT_MAX \<longrightarrow>
        sint (moveCount (snd (performMovement f now))) = sint (moveCount f) + 1)
   \<and> (moveCount f = INT_MAX \<longrightarrow> moveCount (snd (performMovement f now)) = INT_MIN)
   \<and> snd (performMovement f now)
       = transitionToState (f\<lparr>moveCount := moveCount f + 1\<rparr>)
           (if 3 \<le> sint (moveCount f + 1) then SHOOTING else IDLE) now
   \<and> currentState (snd (performMovement f now))
       = (if 3 \<le> sint (moveCount (snd (performMovement f now))) then SHOOTING else IDLE)
   \<and> moveCount (snd (performMovement (snd (performMovement (snd (performMovement
        f now)) now2)) now3)) = moveCount f + 3
   \<and> currentState (snd (performMovement (snd (performMovement (snd (performMovement
        f now)) now2)) now3))
       = (if 3 \<le> sint (moveCount f + 3) then SHOOTING else IDLE)
   \<and> (0 \<le> sint (moveCount f) \<and> sint (moveCount f) \<le> 2147483644 \<longrightarrow>
        currentState (snd (performMovement (snd (performMovement (snd (performMovement
          f now)) now2)) now3)) = SHOOTING
        \<and> sint (moveCount (snd (performMovement (snd (performMovement (snd (performMovement
          f now)) now2)) now3))) = sint (moveCount f) + 3)"
proof -
  let ?f1 = "snd (performMovement f now)"
  let ?f3 = "snd (performMovement (snd (performMovement (snd (performMovement
        f now)) now2)) now3)"
  have three: "moveCount f + 1 + 1 + 1 = moveCount f + 3" by simp
  have h1: "fst (performMovement f now) = [Text ''Moving...'']"
    by (simp add: performMovement_def Let_def)
  have h2: "moveCount ?f1 = moveCount f + 1"
    by (rule moveCount_performMovement)
  have h3: "moveCount f \<noteq> INT_MAX \<longrightarrow> sint (moveCount ?f1) = sint (moveCount f) + 1"
    by (simp only: moveCount_performMovement) (simp add: sint_incr)
  have h4: "moveCount f = INT_MAX \<longrightarrow> moveCount ?f1 = INT_MIN"
    by (simp only: moveCount_performMovement) (simp add: INT_MAX_incr)
  have h5: "?f1 = transitionToState (f\<lparr>moveCount := moveCount f + 1\<rparr>)
           (if 3 \<le> sint (moveCount f + 1) then SHOOTING else IDLE) now"
    by (simp add: performMovement_def Let_def)
  have h6: "currentState ?f1 = (if 3 \<le> sint (moveCount ?f1) then SHOOTING else IDLE)"
    by (simp only: moveCount_performMovement currentState_performMovement)
  have h7: "moveCount ?f3 = moveCount f + 3"
    by (simp only: moveCount_performMovement three)
  have h8: "currentState ?f3 = (if 3 \<le> sint (moveCount f + 3) then SHOOTING else IDLE)"
    by (simp only: currentState_performMovement moveCount_performMovement three)
  have h9: "0 \<le> sint (moveCount f) \<and> sint (moveCount f) \<le> 2147483644 \<longrightarrow>
        currentState ?f3 = SHOOTING \<and> sint (moveCount ?f3) = sint (moveCount f) + 3"
  proof
    assume r: "0 \<le> sint (moveCount f) \<and> sint (moveCount f) \<le> 2147483644"
    then have s: "sint (moveCount f + 3) = sint (moveCount f) + 3"
      by (simp add: sint_add3)
    from r s have "currentState ?f3 = SHOOTING"
      by (simp only: h8) simp
    moreover from s have "sint (moveCount ?f3) = sint (moveCount f) + 3"
      by (simp only: h7)
    ultimately show "currentState ?f3 = SHOOTING \<and> sint (moveCount ?f3) = sint (moveCount f) + 3"
      by simp
  qed
  show ?thesis
    using h1 h2 h3 h4 h5 h6 h7 h8 h9 by blast
qed

text \<open>
  Claim C3 as amended, at concrete inputs: on the engine as constructed the first
  Movement leaves the engine in \<open>IDLE\<close> with a count of 1 and the third leaves it in
  \<open>SHOOTING\<close>; from \<open>INT_MAX\<close> the count becomes \<open>INT_MIN\<close>.
\<close>

theorem C3_performMovement_amended_witness:
  "moveCount FSM_default \<noteq> INT_MAX
   \<and> sint (moveCount (snd (performMovement FSM_default 10))) = 1
   \<and> currentState (snd (performMovement FSM_default 10)) = IDLE
   \<and> 0 \<le> sint (moveCount FSM_default) \<and> sint (moveCount FSM_default) \<le> 2147483644
   \<and> currentState (snd (performMovement (snd (performMovement (snd (performMovement
        FSM_default 10)) 20)) 30)) = SHOOTING
   \<and> moveCount (setMoveCount FSM_default INT_MAX) = INT_MAX
   \<and> moveCount (snd (performMovement (setMoveCount FSM_default INT_MAX) 10)) = INT_MIN"
proof -
  have h: "moveCount FSM_default \<noteq> INT_MAX"
    by (simp add: FSM_default_def INT_MAX_def)
  have z: "sint (moveCount FSM_default) = 0"
    by (simp add: FSM_default_def)
  have r: "0 \<le> sint (moveCount FSM_default) \<and> sint (moveCount FSM_default) \<le> 2147483644"
    by (simp add: z)
  have m: "moveCount (setMoveCount FSM_default INT_MAX) = INT_MAX"
    by (simp add: setMoveCount_def)
  note A = C3_performMovement_amended [of FSM_default 10 20 30]
  note B = C3_performMovement_amended [of "setMoveCount FSM_default INT_MAX" 10 20 30]
  from A h have "sint (moveCount (snd (performMovement FSM_default 10)))
      = sint (moveCount FSM_default) + 1"
    by blast
  then have a1: "sint (moveCount (snd (performMovement FSM_default 10))) = 1"
    by (simp add: z)
  from A have "currentState (snd (performMovement FSM_default 10))
      = (if 3 \<le> sint (moveCount (snd (performMovement FSM_default 10))) then SHOOTING else IDLE)"
    by blast
  then have a2: "currentState (snd (performMovement FSM_default 10)) = IDLE"
    by (simp add: a1)
  from A r have a3: "currentState (snd (performMovement (snd (performMovement (snd (performMovement
        FSM_default 10)) 20)) 30)) = SHOOTING"
    by blast
  from B m have b1: "moveCount (snd (performMovement (setMoveCount FSM_default INT_MAX) 10)) = INT_MIN"
    by blast
  show ?thesis
    using h r m a1 a2 a3 b1 by blast
qed

subsection \<open>The Error handler\<close>

text \<open>
  Claim C4 says that every call of \<open>performErrorHandling\<close> increments the counter by
  exactly 1.  On an engine whose counter \<open>setErrorCount\<close> has set to \<open>INT_MAX\<close>, the
  stored count after the call is \<open>INT_MIN\<close>, not \<open>INT_MAX + 1\<close>, and the engine goes to
  \<open>IDLE\<close>.
\<close>

theorem C4_performErrorHandling_counterexample:
  "sint (errorCount (setErrorCount FSM_default INT_MAX)) = 2147483647
   \<and> sint (errorCount (snd (performErrorHandling (setErrorCount FSM_default INT_MAX) 10)))
       = - 2147483648
   \<and> currentState (snd (performErrorHandling (setErrorCount FSM_default INT_MAX) 10)) = IDLE"
  by (simp add: performErrorHandling_def transitionToState_def setErrorCount_def
      FSM_default_def INT_MAX_def Let_def)

text \<open>
  Claim C4 as amended.  Every call of \<open>performErrorHandling\<close> adds 1 to \<open>errorCount\<close>
  in 32-bit two's complement arithmetic: by exactly 1 when the count is below
  \<open>INT_MAX\<close>, and from \<open>INT_MAX\<close> to \<open>INT_MIN\<close>.  It then makes the transition to
  \<open>STOPPED\<close> if the stored, incremented count is above 3, and to \<open>IDLE\<close> otherwise.
  In particular the call that takes the count from 3 to 4 leaves the engine in
  \<open>STOPPED\<close>.
\<close>

theorem C4_performErrorHandling_amended:
  "fst (performErrorHandling f now) = [Text ''Error!'']
   \<and> errorCount (snd (performErrorHandling f now)) = errorCount f + 1
   \<and> (errorCount f \<noteq> INT_MAX \<longrightarrow>
        sint (errorCount (snd (performErrorHandling f now))) = sint (errorCount f) + 1)
   \<and> (errorCount f = INT_MAX \<longrightarrow> errorCount (snd (performErrorHandling f now)) = INT_MIN)
   \<and> snd (performErrorHandling f now)
       = transitionToState (f\<lparr>errorCount := errorCount f + 1\<rparr>)
           (if 3 < sint (errorCount f + 1) then STOPPED else IDLE) now
   \<and> currentState (snd (performErrorHandling f now))
       = (if 3 < sint (errorCount (snd (performErrorHandling f now))) then STOPPED else IDLE)
   \<and> (errorCount f = 3 \<longrightarrow>
        errorCount (snd (performErrorHandling f now)) = 4
        \<and> currentState (snd (performErrorHandling f now)) = STOPPED)"
proof -
  let ?f1 = "snd (performErrorHandling f now)"
  have h1: "fst (performErrorHandling f now) = [Text ''Error!'']"
    by (simp add: performErrorHandling_def Let_def)
  have h2: "errorCount ?f1 = errorCount f + 1"
    by (rule errorCount_performErrorHandling)
  have h3: "errorCount f \<noteq> INT_MAX \<longrightarrow> sint (errorCount ?f1) = sint (errorCount f) + 1"
    by (simp only: errorCount_performErrorHandling) (simp add: sint_incr)
  have h4: "errorCount f = INT_MAX \<longrightarrow> errorCount ?f1 = INT_MIN"
    by (simp only: errorCount_performErrorHandling) (simp add: INT_MAX_incr)
  have h5: "?f1 = transitionToState (f\<lparr>errorCount := errorCount f + 1\<rparr>)
           (if 3 < sint (errorCount f + 1) then STOPPED else IDLE) now"
    by (simp add: performErrorHandling_def Let_def)
  have h6: "currentState ?f1 = (if 3 < sint (errorCount ?f1) then STOPPED else IDLE)"
    by (simp only: errorCount_performErrorHandling currentState_performErrorHandling)
  have h7: "errorCount f = 3 \<longrightarrow> errorCount ?f1 = 4 \<and> currentState ?f1 = STOPPED"
    by (simp only: errorCount_performErrorHandling currentState_performErrorHandling) simp
  show ?thesis
    using h1 h2 h3 h4 h5 h6 h7 by blast
qed

text \<open>
  Claim C4 as amended, at concrete inputs: the fourth error, and the call at
  \<open>INT_MAX\<close>.
\<close>

theorem C4_performErrorHandling_amended_witness:
  "errorCount (setErrorCount FSM_default 3) = 3
   \<and> errorCount (setErrorCount FSM_default 3) \<noteq> INT_MAX
   \<and> errorCount (snd (performErrorHandling (setErrorCount FSM_default 3) 10)) = 4
   \<and> sint (errorCount (snd (performErrorHandling (setErrorCount FSM_default 3) 10))) = 4
   \<and> currentState (snd (performErrorHandling (setErrorCount FSM_default 3) 10)) = STOPPED
   \<and> errorCount (setErrorCount FSM_default INT_MAX) = INT_MAX
   \<and> errorCount (snd (performErrorHandling (setErrorCount FSM_default INT_MAX) 10)) = INT_MIN"
proof -
  have e: "errorCount (setErrorCount FSM_default 3) = 3"
    by (simp add: setErrorCount_def)
  have h: "errorCount (setErrorCount FSM_default 3) \<noteq> INT_MAX"
    by (simp add: setErrorCount_def INT_MAX_def)
  have m: "errorCount (setErrorCount FSM_default INT_MAX) = INT_MAX"
    by (simp add: setErrorCount_def)
  note A = C4_performErrorHandling_amended [of "setErrorCount FSM_default 3" 10]
  note B = C4_performErrorHandling_amended [of "setErrorCount FSM_default INT_MAX" 10]
  from A e have a1: "errorCount (snd (performErrorHandling (setErrorCount FSM_default 3) 10)) = 4
      \<and> currentState (snd (performErrorHandling (setErrorCount FSM_default 3) 10)) = STOPPED"
    by blast
  from A h have "sint (errorCount (snd (performErrorHandling (setErrorCount FSM_default 3) 10)))
      = sint (errorCount (setErrorCount FSM_default 3)) + 1"
    by blast
  then have a2: "sint (errorCount (snd (performErrorHandling (setErrorCount FSM_default 3) 10))) = 4"
    by (simp add: e)
  from B m have b1: "errorCount (snd (performErrorHandling (setErrorCount FSM_default INT_MAX) 10))
      = INT_MIN"
    by blast
  show ?thesis
    using e h m a1 a2 b1 by blast
qed

subsection \<open>The Calculation handler\<close>

text \<open>
  Claim C5.  \<open>performCalculation\<close> makes the transition to \<open>ERROR\<close> when \<open>moveCount\<close> is
  0 and to \<open>IDLE\<close> when it is positive, and changes neither counter.
\<close>

theorem C5_performCalculation:
  "snd (performCalculation f now)
     = transitionToState f (if moveCount f = 0 then ERROR else IDLE) now
   \<and> (moveCount f = 0 \<longrightarrow> currentState (snd (performCalculation f now)) = ERROR)
   \<and> (0 < sint (moveCount f) \<longrightarrow> currentState (snd (performCalculation f now)) = IDLE)
   \<and> moveCount (snd (performCalculation f now)) = moveCount f
   \<and> errorCount (snd (performCalculation f now)) = errorCount f"
  by (auto simp: performCalculation_def transitionToState_def)

text \<open>Claim C5 at concrete inputs: a count of 0 and a count of 2.\<close>

theorem C5_performCalculation_witness:
  "moveCount FSM_default = 0
   \<and> currentState (snd (performCalculation FSM_default 10)) = ERROR
   \<and> 0 < sint (moveCount (setMoveCount FSM_default 2))
   \<and> currentState (snd (performCalculation (setMoveCount FSM_default 2) 10)) = IDLE"
proof -
  have a: "moveCount FSM_default = 0"
    by (simp add: FSM_default_def)
  have b: "0 < sint (moveCount (setMoveCount FSM_default 2))"
    by (simp add: setMoveCount_def)
  show ?thesis
    using a b C5_performCalculation [of FSM_default 10] C5_performCalculation [of "setMoveCount FSM_default 2" 10]
    by blast
qed

subsection \<open>The Init handler\<close>

text \<open>
  Claim C6 says that \<open>performInit\<close> sets the delay to 1000 when none was configured, as
  the comment on its declaration in fsm.hpp does (``set delay to 1000 milliseconds'').
  The function in fsm.cpp does not assign \<open>delay\<close>: it leaves the field as it was, so on
  the engine built by the default constructor the delay is still 0 afterwards.  The
  transition to \<open>IDLE\<close> is made as claimed.
\<close>

theorem C6_performInit_leaves_delay:
  "delay (snd (performInit f now)) = delay f
   \<and> currentState (snd (performInit f now)) = IDLE
   \<and> delay (snd (performInit FSM_default 7)) = 0
   \<and> delay (snd (performInit FSM_default 7)) \<noteq> 1000"
  by (simp add: performInit_def transitionToState_def FSM_default_def)

subsection \<open>The error counter over the whole interface\<close>














subsection \<open>The terminal state\<close>

lemma updates_STOPPED:
  "currentState f = STOPPED \<Longrightarrow>
     updates f steps = (concat (map (\<lambda>step. fst (shutdown f)) steps), f)"
  by (induction steps) (auto simp: update_def shutdown_def)

text \<open>
  Claim C8.  In \<open>STOPPED\<close>, \<open>update\<close> runs \<open>shutdown\<close> and nothing else, and
  \<open>shutdown\<close> leaves the object as it is; so any number of further \<open>update\<close> calls
  leaves the whole object, its current state and history included, unchanged, and the
  run loop makes no iteration.
\<close>

theorem C8_STOPPED_terminal:
  assumes "currentState f = STOPPED"
  shows "update f cmd now = shutdown f
    \<and> snd (shutdown f) = f
    \<and> updates f steps = (concat (map (\<lambda>step. fst (shutdown f)) steps), f)
    \<and> update_loop f steps = Some ([], f)"
  using assms updates_STOPPED [OF assms]
  by (simp add: update_def shutdown_def update_loop.simps)

text \<open>Claim C8 at a concrete input: an engine taken to \<open>STOPPED\<close>, then two updates.\<close>

theorem C8_STOPPED_terminal_witness:
  "currentState (transitionToState FSM_default STOPPED 10) = STOPPED
   \<and> update (transitionToState FSM_default STOPPED 10) 2 20
       = shutdown (transitionToState FSM_default STOPPED 10)
   \<and> snd (updates (transitionToState FSM_default STOPPED 10) [(2, 20), (3, 30)])
       = transitionToState FSM_default STOPPED 10
   \<and> update_loop (transitionToState FSM_default STOPPED 10) [(2, 20), (3, 30)]
       = Some ([], transitionToState FSM_default STOPPED 10)"
proof -
  have h: "currentState (transitionToState FSM_default STOPPED 10) = STOPPED"
    by (simp add: transitionToState_def)
  note A = C8_STOPPED_terminal [OF h, of 2 20 "[(2, 20), (3, 30)]"]
  from A have "snd (updates (transitionToState FSM_default STOPPED 10) [(2, 20), (3, 30)])
       = transitionToState FSM_default STOPPED 10"
    by (simp only: snd_conv)
  with h A show ?thesis by blast
qed

subsection \<open>The delay field\<close>

lemma delay_performInit:
  "performInit (f\<lparr>delay := d\<rparr>) now = map_prod id (\<lambda>g. g\<lparr>delay := d\<rparr>) (performInit f now)"
  by (simp add: performInit_def transitionToState_def)

lemma delay_performProcess:
  "performProcess (f\<lparr>delay := d\<rparr>) cmd now
     = map_prod id (\<lambda>g. g\<lparr>delay := d\<rparr>) (performProcess f cmd now)"
  by (simp add: performProcess_def transitionToState_def printStatus_def
      printStateHistory_def Let_def)

lemma delay_performMovement:
  "performMovement (f\<lparr>delay := d\<rparr>) now
     = map_prod id (\<lambda>g. g\<lparr>delay := d\<rparr>) (performMovement f now)"
  by (simp add: performMovement_def transitionToState_def Let_def)

lemma delay_performShooting:
  "performShooting (f\<lparr>delay := d\<rparr>) now
     = map_prod id (\<lambda>g. g\<lparr>delay := d\<rparr>) (performShooting f now)"
  by (simp add: performShooting_def transitionToState_def)

lemma delay_performCalculation:
  "performCalculation (f\<lparr>delay := d\<rparr>) now
     = map_prod id (\<lambda>g. g\<lparr>delay := d\<rparr>) (performCalculation f now)"
  by (simp add: performCalculation_def transitionToState_def)

lemma delay_performErrorHandling:
  "performErrorHandling (f\<lparr>delay := d\<rparr>) now
     = map_prod id (\<lambda>g. g\<lparr>delay := d\<rparr>) (performErrorHandling f now)"
  by (simp add: performErrorHandling_def transitionToState_def Let_def)

lemma delay_shutdown:
  "shutdown (f\<lparr>delay := d\<rparr>) = map_prod id (\<lambda>g. g\<lparr>delay := d\<rparr>) (shutdown f)"
  by (simp add: shutdown_def printStateHistory_def)

lemma delay_update:
  "update (f\<lparr>delay := d\<rparr>) cmd now
     = map_prod id (\<lambda>g. g\<lparr>delay := d\<rparr>) (update f cmd now)"
  by (cases "currentState f")
     (simp_all add: update_def delay_performInit delay_performProcess delay_performMovement
        delay_performShooting delay_performCalculation delay_performErrorHandling delay_shutdown)

lemma delay_update_loop:
  "update_loop (f\<lparr>delay := d\<rparr>) steps
     = map_option (map_prod id (\<lambda>g. g\<lparr>delay := d\<rparr>)) (update_loop f steps)"
proof (induction steps arbitrary: f)
  case Nil
  show ?case by (simp add: update_loop_Nil)
next
  case (Cons step rest)
  obtain cmd now where step: "step = (cmd, now)" by (cases step)
  obtain out f' where r: "update f cmd now = (out, f')" by (cases "update f cmd now")
  show ?case
    using r Cons.IH [of f']
    by (simp add: step update_loop_Cons delay_update split: option.split)
qed

lemma delay_start:
  "start (f\<lparr>delay := d\<rparr>) now steps
     = map_option (map_prod id (\<lambda>g. g\<lparr>delay := d\<rparr>)) (start f now steps)"
proof -
  obtain out0 f0 where p: "performInit f now = (out0, f0)" by (cases "performInit f now")
  have q: "performInit (f\<lparr>delay := d\<rparr>) now = (out0, f0\<lparr>delay := d\<rparr>)"
    by (simp add: delay_performInit p)
  show ?thesis
    unfolding start_def p q
    by (simp add: delay_update_loop delay_shutdown split: option.split prod.split)
qed

text \<open>
  Claim C9.  Take two objects that differ in \<open>delay\<close> only and run the same handler,
  \<open>update\<close> or \<open>start\<close> on both with the same inputs.  The two runs write the same
  console output (and \<open>start\<close> returns in both or in neither), and the objects they
  leave again differ in \<open>delay\<close> only: the current state, both counters, the heartbeat
  and the history are the same.
\<close>

theorem C9_delay_not_consulted:
  "performInit (f\<lparr>delay := d\<rparr>) now = map_prod id (\<lambda>g. g\<lparr>delay := d\<rparr>) (performInit f now)
   \<and> performProcess (f\<lparr>delay := d\<rparr>) cmd now
       = map_prod id (\<lambda>g. g\<lparr>delay := d\<rparr>) (performProcess f cmd now)
   \<and> performMovement (f\<lparr>delay := d\<rparr>) now
       = map_prod id (\<lambda>g. g\<lparr>delay := d\<rparr>) (performMovement f now)
   \<and> performShooting (f\<lparr>delay := d\<rparr>) now
       = map_prod id (\<lambda>g. g\<lparr>delay := d\<rparr>) (performShooting f now)
   \<and> performCalculation (f\<lparr>delay := d\<rparr>) now
       = map_prod id (\<lambda>g. g\<lparr>delay := d\<rparr>) (performCalculation f now)
   \<and> performErrorHandling (f\<lparr>delay := d\<rparr>) now
       = map_prod id (\<lambda>g. g\<lparr>delay := d\<rparr>) (performErrorHandling f now)
   \<and> shutdown (f\<lparr>delay := d\<rparr>) = map_prod id (\<lambda>g. g\<lparr>delay := d\<rparr>) (shutdown f)
   \<and> update (f\<lparr>delay := d\<rparr>) cmd now
       = map_prod id (\<lambda>g. g\<lparr>delay := d\<rparr>) (update f cmd now)
   \<and> start (f\<lparr>delay := d\<rparr>) now steps
       = map_option (map_prod id (\<lambda>g. g\<lparr>delay := d\<rparr>)) (start f now steps)"
  by (simp only: delay_performInit delay_performProcess delay_performMovement
      delay_performShooting delay_performCalculation delay_performErrorHandling
      delay_shutdown delay_update delay_start simp_thms)

subsection \<open>Adding to the history by hand\<close>

text \<open>
  Claim C10.  \<open>addStateToHistory\<close> appends the given pair to the history and changes no
  other field.  The appended state need not be the current state: after it, the last
  history entry can disagree with \<open>currentState\<close>, as on the engine as constructed
  (in \<open>INIT\<close>) with the pair \<open>(STOPPED, 5)\<close>.
\<close>

theorem C10_addStateToHistory_frame:
  "stateHistory (addStateToHistory f state time) = stateHistory f @ [(state, time)]
   \<and> currentState (addStateToHistory f state time) = currentState f
   \<and> lastHeartbeat (addStateToHistory f state time) = lastHeartbeat f
   \<and> delay (addStateToHistory f state time) = delay f
   \<and> errorCount (addStateToHistory f state time) = errorCount f
   \<and> moveCount (addStateToHistory f state time) = moveCount f
   \<and> fst (last (stateHistory (addStateToHistory f state time))) = state
   \<and> fst (last (stateHistory (addStateToHistory FSM_default STOPPED 5)))
       \<noteq> currentState (addStateToHistory FSM_default STOPPED 5)"
  by (simp add: addStateToHistory_def FSM_default_def)

end
